theory Spec2Isabelle
  imports Complex_Main
begin

section \<open>Strings and coercions of the host language\<close>

text \<open>
  A JavaScript string is modelled as a \<open>string\<close>, the list of its bytes in UTF-8. Every
  character the program looks for (\<open>/\<close>, \<open>.\<close>, \<open>?\<close>, \<open>&\<close>, \<open>=\<close>) is ASCII, so splitting and
  comparing bytes agrees with splitting and comparing UTF-16 code units.
\<close>

text \<open>\<open>s.split(c)\<close> for a separator of one character. The result is never empty:
  \<open>''.split('/')\<close> is \<open>['']\<close>.\<close>

fun split_on :: "char \<Rightarrow> string \<Rightarrow> string list" where
  "split_on c [] = [[]]"
| "split_on c (x # xs) =
     (if x = c then [] # split_on c xs
      else (case split_on c xs of [] \<Rightarrow> [[x]] | y # ys \<Rightarrow> (x # y) # ys))"

text \<open>\<open>xs.join(sep)\<close> on an array of strings.\<close>

fun join_with :: "string \<Rightarrow> string list \<Rightarrow> string" where
  "join_with sep [] = []"
| "join_with sep [x] = x"
| "join_with sep (x # y # ys) = x @ sep @ join_with sep (y # ys)"

subsection \<open>ToNumber of a string, compared with zero\<close>

text \<open>
  \<open>fuzzyEqual\<close> evaluates \<open>Object.keys(matching) == 0\<close>. Loose equality of an array and a
  number converts the array to the string \<open>keys.join(',')\<close> and that string to a number
  (ECMAScript StringToNumber): white space is trimmed, the empty string is \<open>0\<close>, a decimal
  literal (optional sign, optional fraction, optional exponent) or an unsigned \<open>0x\<close>, \<open>0o\<close>,
  \<open>0b\<close> literal has its value rounded to a double, and anything else is \<open>NaN\<close>.
  \<open>numeric_zero s\<close> says that the number is \<open>+0\<close> or \<open>-0\<close>.
\<close>

definition ws1 :: "char \<Rightarrow> bool" where
  "ws1 a = (a \<in> set [CHR 0x09, CHR 0x0A, CHR 0x0B, CHR 0x0C, CHR 0x0D, CHR 0x20])"

text \<open>U+00A0, encoded in two bytes.\<close>

definition ws2 :: "char \<Rightarrow> char \<Rightarrow> bool" where
  "ws2 a b = (a = CHR 0xC2 \<and> b = CHR 0xA0)"

text \<open>U+1680, U+2000 to U+200A, U+2028, U+2029, U+202F, U+205F, U+3000 and U+FEFF,
  encoded in three bytes.\<close>

definition ws3 :: "char \<Rightarrow> char \<Rightarrow> char \<Rightarrow> bool" where
  "ws3 a b c =
     ((a = CHR 0xE1 \<and> b = CHR 0x9A \<and> c = CHR 0x80) \<or>
      (a = CHR 0xE2 \<and> b = CHR 0x80 \<and>
         c \<in> set [CHR 0x80, CHR 0x81, CHR 0x82, CHR 0x83, CHR 0x84, CHR 0x85, CHR 0x86,
                   CHR 0x87, CHR 0x88, CHR 0x89, CHR 0x8A, CHR 0xA8, CHR 0xA9, CHR 0xAF]) \<or>
      (a = CHR 0xE2 \<and> b = CHR 0x81 \<and> c = CHR 0x9F) \<or>
      (a = CHR 0xE3 \<and> b = CHR 0x80 \<and> c = CHR 0x80) \<or>
      (a = CHR 0xEF \<and> b = CHR 0xBB \<and> c = CHR 0xBF))"

text \<open>Dropping leading white space; with \<open>back\<close> the string is read from its end, so
  the bytes of a character arrive in reverse.\<close>

fun drop_ws :: "bool \<Rightarrow> string \<Rightarrow> string" where
  "drop_ws back (a # b # c # s) =
     (if ws1 a then drop_ws back (b # c # s)
      else if (if back then ws2 b a else ws2 a b) then drop_ws back (c # s)
      else if (if back then ws3 c b a else ws3 a b c) then drop_ws back s
      else a # b # c # s)"
| "drop_ws back [a, b] =
     (if ws1 a then drop_ws back [b]
      else if (if back then ws2 b a else ws2 a b) then []
      else [a, b])"
| "drop_ws back [a] = (if ws1 a then [] else [a])"
| "drop_ws back [] = []"

definition trim :: "string \<Rightarrow> string" where
  "trim s = rev (drop_ws True (rev (drop_ws False s)))"

definition is_digit :: "char \<Rightarrow> bool" where
  "is_digit c = (c \<in> set ''0123456789'')"

definition digit_value :: "char \<Rightarrow> nat" where
  "digit_value c = of_char c - 48"

definition digits_value :: "string \<Rightarrow> nat" where
  "digits_value ds = foldl (\<lambda>n c. 10 * n + digit_value c) 0 ds"

text \<open>\<open>0x0\<close>, \<open>0B000\<close>, ...: a prefixed literal is zero when all its digits are \<open>0\<close>.\<close>

definition nondecimal_zero :: "string \<Rightarrow> bool" where
  "nondecimal_zero t =
     (case t of
        z # p # ds \<Rightarrow> z = CHR ''0'' \<and> p \<in> set ''xXoObB'' \<and> ds \<noteq> [] \<and> list_all (\<lambda>c. c = CHR ''0'') ds
      | _ \<Rightarrow> False)"

text \<open>The exponent part: absent, or \<open>e\<close> / \<open>E\<close>, an optional sign and one digit at least.\<close>

definition exponent_part :: "string \<Rightarrow> int option" where
  "exponent_part r =
     (case r of
        [] \<Rightarrow> Some 0
      | e # r' \<Rightarrow>
          (let neg = (take 1 r' = ''-'');
               ds = (if take 1 r' = ''-'' \<or> take 1 r' = ''+'' then drop 1 r' else r')
           in if ds \<noteq> [] \<and> list_all is_digit ds
              then Some (if neg then - int (digits_value ds) else int (digits_value ds))
              else None))"

text \<open>A positive value \<open>m * 10 ^ e\<close> rounds to zero when it is at most \<open>2 ^ -1075\<close>, half
  the least positive double.\<close>

definition rounds_to_zero :: "nat \<Rightarrow> int \<Rightarrow> bool" where
  "rounds_to_zero m e = (e < 0 \<and> m * 2 ^ 1075 \<le> 10 ^ nat (- e))"

definition decimal_zero :: "string \<Rightarrow> bool" where
  "decimal_zero t =
     (let u = (if take 1 t = ''-'' \<or> take 1 t = ''+'' then drop 1 t else t);
          mant = takeWhile (\<lambda>c. c \<noteq> CHR ''e'' \<and> c \<noteq> CHR ''E'') u;
          ip = takeWhile is_digit mant;
          after = dropWhile is_digit mant;
          fp = drop 1 after
      in (after = [] \<or> take 1 after = ''.'') \<and> list_all is_digit fp \<and> (ip \<noteq> [] \<or> fp \<noteq> []) \<and>
         (case exponent_part (dropWhile (\<lambda>c. c \<noteq> CHR ''e'' \<and> c \<noteq> CHR ''E'') u) of
            None \<Rightarrow> False
          | Some e \<Rightarrow>
              digits_value (ip @ fp) = 0 \<or>
              rounds_to_zero (digits_value (ip @ fp)) (e - int (length fp))))"

definition numeric_zero :: "string \<Rightarrow> bool" where
  "numeric_zero s = (let t = trim s in t = [] \<or> nondecimal_zero t \<or> decimal_zero t)"

section \<open>The \<open>querystring\<close> module\<close>

text \<open>
  \<open>querystring.parse\<close> returns an object without prototype whose values are strings, or
  arrays of strings for a key that occurs more than once. An object is modelled as the list
  of its properties; each name occurs once. The order of the list is the order of
  insertion; the program only reads properties by name, counts them and joins the names, so
  the enumeration order of JavaScript (integer names first) makes no difference.
\<close>

datatype qvalue = Str string | Arr "string list"

type_synonym query = "(string \<times> qvalue) list"

text \<open>The request's query parameters, name to string value; \<open>None\<close> stands for \<open>null\<close> and
  \<open>undefined\<close>, \<open>Some []\<close> for the empty object \<open>{}\<close>.\<close>

type_synonym params = "(string \<times> string) list"

definition hex_bits :: "char \<Rightarrow> (bool \<times> bool \<times> bool \<times> bool) option" where
  "hex_bits c =
     map_of
       [(CHR ''0'', (False, False, False, False)), (CHR ''1'', (True, False, False, False)),
        (CHR ''2'', (False, True, False, False)), (CHR ''3'', (True, True, False, False)),
        (CHR ''4'', (False, False, True, False)), (CHR ''5'', (True, False, True, False)),
        (CHR ''6'', (False, True, True, False)), (CHR ''7'', (True, True, True, False)),
        (CHR ''8'', (False, False, False, True)), (CHR ''9'', (True, False, False, True)),
        (CHR ''a'', (False, True, False, True)), (CHR ''b'', (True, True, False, True)),
        (CHR ''c'', (False, False, True, True)), (CHR ''d'', (True, False, True, True)),
        (CHR ''e'', (False, True, True, True)), (CHR ''f'', (True, True, True, True)),
        (CHR ''A'', (False, True, False, True)), (CHR ''B'', (True, True, False, True)),
        (CHR ''C'', (False, False, True, True)), (CHR ''D'', (True, False, True, True)),
        (CHR ''E'', (False, True, True, True)), (CHR ''F'', (True, True, True, True))] c"

text \<open>
  \<open>querystring.unescape\<close>: every \<open>%XY\<close> with two hexadecimal digits becomes the byte
  \<open>0xXY\<close>, anything else stays. (Where the bytes decoded are not UTF-8, Node puts U+FFFD
  in their place; the model keeps the bytes.)
\<close>

fun unescape :: "string \<Rightarrow> string" where
  "unescape (p # h # l # rest) =
     (if p = CHR ''%'' then
        (case (hex_bits h, hex_bits l) of
           (Some (h0, h1, h2, h3), Some (l0, l1, l2, l3)) \<Rightarrow>
              Char l0 l1 l2 l3 h0 h1 h2 h3 # unescape rest
         | _ \<Rightarrow> p # unescape (h # l # rest))
      else p # unescape (h # l # rest))"
| "unescape [p, h] = p # unescape [h]"
| "unescape [p] = [p]"
| "unescape [] = []"

definition decode :: "string \<Rightarrow> string" where
  "decode s = unescape (map (\<lambda>c. if c = CHR ''+'' then CHR '' '' else c) s)"

text \<open>\<open>addKeyValue\<close>: a new key is added; a second value for a key makes an array, later
  ones are appended to it.\<close>

definition addKeyValue :: "query \<Rightarrow> string \<Rightarrow> string \<Rightarrow> query" where
  "addKeyValue obj key v =
     (case map_of obj key of
        None \<Rightarrow> obj @ [(key, Str v)]
      | Some cur \<Rightarrow>
          map (\<lambda>(k, x). if k = key
                 then (k, case cur of Str c \<Rightarrow> Arr [c, v] | Arr cs \<Rightarrow> Arr (cs @ [v]))
                 else (k, x)) obj)"

definition parse_pair :: "string \<Rightarrow> string \<times> string" where
  "parse_pair s =
     (decode (takeWhile (\<lambda>c. c \<noteq> CHR ''='') s),
      decode (drop 1 (dropWhile (\<lambda>c. c \<noteq> CHR ''='') s)))"

text \<open>\<open>querystring.parse(str)\<close> with the default separators: the pairs are separated by
  \<open>&\<close>, at most 1000 of them are read, empty ones are skipped, and the first \<open>=\<close> of a pair
  ends its key. \<open>None\<close> is the argument \<open>undefined\<close>.\<close>

definition querystring_parse :: "string option \<Rightarrow> query" where
  "querystring_parse str =
     (case str of
        None \<Rightarrow> []
      | Some s \<Rightarrow>
          foldl (\<lambda>obj pair. case parse_pair pair of (k, v) \<Rightarrow> addKeyValue obj k v) []
            (filter (\<lambda>pair. pair \<noteq> []) (take 1000 (split_on CHR ''&'' s))))"

section \<open>\<open>fuzzyEqual\<close>\<close>

text \<open>\<open>!matchingValue\<close>: the empty string is falsy, an array never is.\<close>

fun falsy :: "qvalue option \<Rightarrow> bool" where
  "falsy None = True"
| "falsy (Some (Str s)) = (s = [])"
| "falsy (Some (Arr xs)) = False"

text \<open>\<open>matchingValue != actual[key]\<close>, the right side a string: an array is compared by
  its string form, the elements joined by commas.\<close>

fun loosely_differs :: "qvalue \<Rightarrow> string \<Rightarrow> bool" where
  "loosely_differs (Str s) v = (s \<noteq> v)"
| "loosely_differs (Arr xs) v = (join_with '','' xs \<noteq> v)"

text \<open>The loop \<open>for (let key in actual)\<close>, over the properties of \<open>actual\<close> that are left,
  with the running \<open>matchCount\<close>; \<open>None\<close> is the \<open>return -1\<close> inside the loop.\<close>

fun match_loop :: "params \<Rightarrow> query \<Rightarrow> int \<Rightarrow> int option" where
  "match_loop [] matching matchCount = Some matchCount"
| "match_loop ((key, v) # rest) matching matchCount =
     (let matchingValue = map_of matching key in
      if falsy matchingValue then match_loop rest matching matchCount
      else if loosely_differs (the matchingValue) v then None
      else match_loop rest matching (matchCount + 1))"

definition fuzzyEqual :: "params option \<Rightarrow> query \<Rightarrow> rat" where
  "fuzzyEqual actual matching =
     (case actual of
        None \<Rightarrow> if numeric_zero (join_with '','' (map fst matching)) then 0 else - 1
      | Some a \<Rightarrow>
          (case match_loop a matching 0 of
             None \<Rightarrow> - 1
           | Some matchCount \<Rightarrow>
               if matchCount > 0 \<and> length matching > length a
               then max (of_int (matchCount - (int (length matching) - int (length a)))) (1 / 2)
               else of_int matchCount))"

section \<open>The \<open>path\<close> module (POSIX)\<close>

text \<open>\<open>normalizeString\<close> over the segments of a path: empty segments and \<open>.\<close> are dropped,
  \<open>..\<close> removes the segment before it, or is kept when there is none to remove and the
  path is relative. \<open>res\<close> holds the segments kept so far, the last one first.\<close>

fun normalize_segments :: "bool \<Rightarrow> string list \<Rightarrow> string list \<Rightarrow> string list" where
  "normalize_segments allowAboveRoot res [] = rev res"
| "normalize_segments allowAboveRoot res (s # ss) =
     (if s = [] \<or> s = ''.'' then normalize_segments allowAboveRoot res ss
      else if s = ''..'' then
        (case res of
           [] \<Rightarrow> normalize_segments allowAboveRoot (if allowAboveRoot then [''..''] else []) ss
         | r # rs \<Rightarrow>
             if r = ''..''
             then normalize_segments allowAboveRoot (if allowAboveRoot then ''..'' # res else res) ss
             else normalize_segments allowAboveRoot rs ss)
      else normalize_segments allowAboveRoot (s # res) ss)"

definition normalizeString :: "string \<Rightarrow> bool \<Rightarrow> string" where
  "normalizeString path allowAboveRoot =
     join_with ''/'' (normalize_segments allowAboveRoot [] (split_on CHR ''/'' path))"

definition normalize :: "string \<Rightarrow> string" where
  "normalize path =
     (if path = [] then ''.''
      else
        let isAbsolute = (take 1 path = ''/'');
            trailingSeparator = (last path = CHR ''/'');
            p = normalizeString path (\<not> isAbsolute)
        in if p = [] then (if isAbsolute then ''/'' else if trailingSeparator then ''./'' else ''.'')
           else (if isAbsolute then ''/'' else []) @ p @ (if trailingSeparator then ''/'' else []))"

text \<open>\<open>path.join(a, b)\<close>: the arguments that are not empty, joined by \<open>/\<close> and normalised.\<close>

definition path_join :: "string \<Rightarrow> string \<Rightarrow> string" where
  "path_join a b =
     (let joined = (if a = [] then b else if b = [] then a else a @ ''/'' @ b)
      in if joined = [] then ''.'' else normalize joined)"

definition dropWhileEnd :: "(char \<Rightarrow> bool) \<Rightarrow> string \<Rightarrow> string" where
  "dropWhileEnd P s = rev (dropWhile P (rev s))"

record pathObject =
  root_p :: string
  dir :: string
  base :: string
  ext :: string
  name :: string

text \<open>
  \<open>path.parse\<close>. \<open>body\<close> is the path without a leading \<open>/\<close> and without trailing ones,
  \<open>b\<close> its last segment, \<open>startPart\<close> the index where \<open>b\<close> starts (\<open>0\<close> when no \<open>/\<close> stands
  before it), \<open>pre\<close> the part of \<open>b\<close> up to its last dot. There is no extension when \<open>b\<close>
  has no dot, when its only dot is its first character, and when \<open>b\<close> is \<open>..\<close> (which
  Node's index arithmetic misses for the path \<open>/..\<close>).
\<close>

definition path_parse :: "string \<Rightarrow> pathObject" where
  "path_parse path =
     (if path = [] then \<lparr>root_p = [], dir = [], base = [], ext = [], name = []\<rparr>
      else
        let isAbsolute = (take 1 path = ''/'');
            start = (if isAbsolute then 1 else 0);
            body = dropWhileEnd (\<lambda>c. c = CHR ''/'') (drop start path);
            b = rev (takeWhile (\<lambda>c. c \<noteq> CHR ''/'') (rev body));
            startPart = (if CHR ''/'' \<in> set body then start + (length body - length b) else 0);
            pre = dropWhileEnd (\<lambda>c. c \<noteq> CHR ''.'') b;
            noExt = (pre = [] \<or> length pre = 1 \<or> (b = ''..'' \<and> \<not> (startPart = 0 \<and> isAbsolute)))
        in \<lparr>root_p = (if isAbsolute then ''/'' else []),
            dir = (if startPart > 0 then take (startPart - 1) path
                   else if isAbsolute then ''/'' else []),
            base = b,
            ext = (if noExt then [] else drop (length pre - 1) b),
            name = (if noExt then b else butlast pre)\<rparr>)"

text \<open>\<open>path.format\<close>; it reads \<open>dir\<close>, \<open>root\<close>, \<open>base\<close>, and \<open>name\<close> and \<open>ext\<close> when
  there is no \<open>base\<close>.\<close>

definition path_format :: "'a pathObject_scheme \<Rightarrow> string" where
  "path_format obj =
     (let d = (if dir obj \<noteq> [] then dir obj else root_p obj);
          b = (if base obj \<noteq> [] then base obj
               else name obj @ (if ext obj = [] \<or> take 1 (ext obj) = ''.'' then ext obj
                                else ''.'' @ ext obj))
      in if d = [] then b else if d = root_p obj then d @ b else d @ ''/'' @ b)"

section \<open>\<open>parseFilename\<close>\<close>

record parsedFile = pathObject +
  nameStripped :: string
  query :: query

text \<open>\<open>None\<close> is the \<open>return;\<close> for a file name whose first character is a dot. The
  query string is \<open>ret.name.split('?')[1]\<close>, \<open>undefined\<close> when the name has no \<open>?\<close>.\<close>

definition parseFilename :: "string \<Rightarrow> parsedFile option" where
  "parseFilename filename =
     (if take 1 filename = ''.'' then None
      else
        let ret = path_parse filename;
            parts = split_on CHR ''?'' (name ret);
            queryString = (if length parts > 1 then Some (parts ! 1) else None)
        in Some (pathObject.extend ret
                   \<lparr>nameStripped = hd parts, query = querystring_parse queryString\<rparr>))"

section \<open>The file system\<close>

text \<open>
  The program reads the file system by path: \<open>fs.readdirSync(p)\<close> lists the names in a
  directory and \<open>fs.statSync(p)\<close> tells what \<open>p\<close> names. A file system is a function from
  the paths the program asks about to what is found there; \<open>None\<close> when nothing is (both
  calls then throw). A directory holds the list of its names in the order in which
  \<open>readdirSync\<close> returns them; on POSIX that is the order of the bytes of the names.
\<close>

datatype fsnode = File | Directory "string list" | Other

type_synonym filesystem = "string \<Rightarrow> fsnode option"

text \<open>What the program can throw: the errors of the two system calls, and the two
  \<open>throw new Error(...)\<close> of \<open>match\<close> and \<open>locateFilePath\<close>. \<open>SortBeyondModel\<close> is not an
  error of the program: it marks a call of \<open>Array.prototype.sort\<close> outside the part of the
  engine's algorithm that is modelled below, and is shown never to occur.\<close>

datatype error =
    ENOENT string
  | ENOTDIR string
  | CouldNotFindMatch string string
  | NotADirectory string
  | SortBeyondModel

definition readdirSync :: "filesystem \<Rightarrow> string \<Rightarrow> error + string list" where
  "readdirSync fs p =
     (case fs p of
        None \<Rightarrow> Inl (ENOENT p)
      | Some (Directory names) \<Rightarrow> Inr names
      | Some _ \<Rightarrow> Inl (ENOTDIR p))"

definition statSync :: "filesystem \<Rightarrow> string \<Rightarrow> error + fsnode" where
  "statSync fs p = (case fs p of None \<Rightarrow> Inl (ENOENT p) | Some n \<Rightarrow> Inr n)"

fun isDirectory :: "fsnode \<Rightarrow> bool" where
  "isDirectory (Directory names) = True"
| "isDirectory _ = False"

fun isFile :: "fsnode \<Rightarrow> bool" where
  "isFile File = True"
| "isFile _ = False"

section \<open>\<open>Array.prototype.sort\<close>\<close>

text \<open>
  ECMAScript asks of \<open>comparefn\<close> a negative number, zero or a positive number, and leaves the
  order to the implementation when \<open>comparefn\<close> is not a consistent comparison. V8 (Node 11
  and later) sorts by TimSort. Its first step, \<open>CountAndMakeRun\<close>, calls
  \<open>comparefn(a[1], a[0])\<close>: a negative order starts a strictly descending run, any other a
  non-descending one. The run goes on while \<open>comparefn(a[i], a[i - 1])\<close> has the same sign
  condition, and a descending run is reversed in place. When the run is the whole array
  the sort is over. Only this part is modelled: \<open>array_sort\<close> is \<open>None\<close> when the first run
  stops before the end (binary insertion and merging would follow).
\<close>

fun run_length :: "bool \<Rightarrow> ('a \<Rightarrow> 'a \<Rightarrow> int) \<Rightarrow> 'a \<Rightarrow> 'a list \<Rightarrow> nat" where
  "run_length isDescending cmp previous [] = 0"
| "run_length isDescending cmp previous (current # rest) =
     (let order = cmp current previous in
      if (if isDescending then order \<ge> 0 else order < 0) then 0
      else Suc (run_length isDescending cmp current rest))"

definition array_sort :: "('a \<Rightarrow> 'a \<Rightarrow> int) \<Rightarrow> 'a list \<Rightarrow> 'a list option" where
  "array_sort cmp xs =
     (case xs of
        [] \<Rightarrow> Some []
      | [x] \<Rightarrow> Some [x]
      | x # y # rest \<Rightarrow>
          (let isDescending = (cmp y x < 0) in
           if 2 + run_length isDescending cmp y rest = length xs
           then Some (if isDescending then rev xs else xs)
           else None))"

section \<open>\<open>locateFilePath\<close>\<close>

text \<open>\<open>match(pathFragment, currentDirectory)\<close>. \<open>!pathMatch\<close> holds when nothing is found,
  and for an empty name.\<close>

definition match :: "filesystem \<Rightarrow> string \<Rightarrow> string \<Rightarrow> error + string" where
  "match fs pathFragment currentDirectory =
     (case readdirSync fs currentDirectory of
        Inl e \<Rightarrow> Inl e
      | Inr files \<Rightarrow>
          (case find (\<lambda>file. file = pathFragment) files of
             None \<Rightarrow> Inl (CouldNotFindMatch pathFragment currentDirectory)
           | Some pathMatch \<Rightarrow>
               if pathMatch = [] then Inl (CouldNotFindMatch pathFragment currentDirectory)
               else Inr pathMatch))"

text \<open>The loop \<open>while (path.length > 1)\<close>: it returns the last \<open>position\<close> and what is left
  of \<open>path\<close>.\<close>

fun walk :: "filesystem \<Rightarrow> string list \<Rightarrow> string \<Rightarrow> error + (string \<times> string list)" where
  "walk fs (fragment # next # rest) position =
     (case match fs fragment position of
        Inl e \<Rightarrow> Inl e
      | Inr directory \<Rightarrow>
          (let position' = path_join position directory in
           case statSync fs position' of
             Inl e \<Rightarrow> Inl e
           | Inr stats \<Rightarrow>
               if \<not> isDirectory stats then Inl (NotADirectory position')
               else walk fs (next # rest) position'))"
| "walk fs path position = Inr (position, path)"

text \<open>\<open>files.filter((f) => fs.statSync(f).isFile())\<close>; the first \<open>statSync\<close> that throws
  ends it.\<close>

fun onlyFiles :: "filesystem \<Rightarrow> string list \<Rightarrow> error + string list" where
  "onlyFiles fs [] = Inr []"
| "onlyFiles fs (f # rest) =
     (case statSync fs f of
        Inl e \<Rightarrow> Inl e
      | Inr stats \<Rightarrow>
          (case onlyFiles fs rest of
             Inl e \<Rightarrow> Inl e
           | Inr kept \<Rightarrow> Inr (if isFile stats then f # kept else kept)))"

record scored =
  item :: parsedFile
  count :: rat

text \<open>The comparison function \<open>(a, b) => a.count < b.count\<close> returns a boolean; as a number
  \<open>true\<close> is \<open>1\<close> and \<open>false\<close> is \<open>0\<close>.\<close>

definition comparefn :: "scored \<Rightarrow> scored \<Rightarrow> int" where
  "comparefn a b = (if count a < count b then 1 else 0)"

text \<open>\<open>path[path.length - 1]\<close>; \<open>None\<close> is \<open>undefined\<close>, which no string equals.\<close>

definition lastSegment :: "string list \<Rightarrow> string option" where
  "lastSegment path = (if path = [] then None else Some (last path))"

text \<open>The candidates by name: the plain files of the directory, parsed, whose
  \<open>nameStripped\<close> is the last segment.\<close>

definition potentialMatches :: "string list \<Rightarrow> string list \<Rightarrow> parsedFile list" where
  "potentialMatches files path =
     filter (\<lambda>f. Some (nameStripped f) = lastSegment path) (List.map_filter parseFilename files)"

text \<open>The candidates with their scores, those of score \<open>-1\<close> removed.\<close>

definition scoredMatches :: "params option \<Rightarrow> parsedFile list \<Rightarrow> scored list" where
  "scoredMatches queryParams ms =
     filter (\<lambda>m. count m \<noteq> - 1)
       (map (\<lambda>m. \<lparr>item = m, count = fuzzyEqual queryParams (query m)\<rparr>) ms)"

text \<open>The first lines of \<open>locateFilePath\<close>: a leading \<open>/\<close> is stripped and the path is
  split into its segments.\<close>

definition segments :: "string \<Rightarrow> string list" where
  "segments path = split_on CHR ''/'' (if take 1 path = ''/'' then drop 1 path else path)"

text \<open>\<open>locateFilePath\<close> up to \<open>potentialMatches\<close>: the walk to the containing folder, its
  listing, the plain files in it, and the candidates by name. \<open>Inl\<close> is a thrown error.\<close>

definition candidates :: "filesystem \<Rightarrow> string \<Rightarrow> string \<Rightarrow> error + parsedFile list" where
  "candidates fs path root' =
     (case walk fs (segments path) root' of
        Inl e \<Rightarrow> Inl e
      | Inr (position, path) \<Rightarrow>
          (case readdirSync fs position of
             Inl e \<Rightarrow> Inl e
           | Inr names \<Rightarrow>
               (case onlyFiles fs (map (path_join position) names) of
                  Inl e \<Rightarrow> Inl e
                | Inr files \<Rightarrow> Inr (potentialMatches files path))))"

text \<open>The rest of \<open>locateFilePath\<close>: the candidates are scored, those of score \<open>-1\<close>
  removed, the rest sorted, and \<open>potentialMatches[0].item\<close> chosen.\<close>

definition bestMatch :: "params option \<Rightarrow> parsedFile list \<Rightarrow> error + parsedFile option" where
  "bestMatch queryParams ms =
     (case array_sort comparefn (scoredMatches queryParams ms) of
        None \<Rightarrow> Inl SortBeyondModel
      | Some [] \<Rightarrow> Inr None
      | Some (m # rest) \<Rightarrow> Inr (Some (item m)))"

text \<open>\<open>locateFilePath(path, queryParams, root)\<close> on the file system \<open>fs\<close>. \<open>Inl\<close> is a
  thrown error, \<open>Inr None\<close> the result \<open>undefined\<close>, \<open>Inr (Some p)\<close> the path returned.\<close>

definition locateFilePath ::
  "filesystem \<Rightarrow> string \<Rightarrow> params option \<Rightarrow> string \<Rightarrow> error + string option" where
  "locateFilePath fs path queryParams root' =
     (case candidates fs path root' of
        Inl e \<Rightarrow> Inl e
      | Inr ms \<Rightarrow>
          (case bestMatch queryParams ms of
             Inl e \<Rightarrow> Inl e
           | Inr None \<Rightarrow> Inr None
           | Inr (Some m) \<Rightarrow> Inr (Some (path_format m))))"

section \<open>The middleware\<close>

text \<open>
  What a request handler works in: the file system, the contents \<open>fs.readFile\<close> finds at a
  path (\<open>None\<close> when it reports an error), the working directory of the process, and the
  calls the logger has received so far. The logger of the module is a variable set by
  \<open>serveLocally(opts)\<close>; whatever function it holds is called with the arguments below and is
  taken to return.
\<close>

datatype logline =
    CouldNotFindMatchFor string
  | CouldNotParseJsonFrom string
  | RespondingWithDataFrom string

record world =
  tree :: filesystem
  contents :: "string \<Rightarrow> string option"
  cwd :: string
  logged :: "logline list"

text \<open>What the handler does with the request in the end: \<open>next()\<close> or \<open>res.json(data)\<close>.\<close>

datatype 'j outcome = Next | Json 'j

text \<open>\<open>path.resolve(p)\<close> with one argument: a relative path is taken from the working
  directory.\<close>

definition path_resolve :: "string \<Rightarrow> string \<Rightarrow> string" where
  "path_resolve wd p =
     (let resolvedPath = (if p = [] then [] else p @ ''/'');
          resolvedPath = (if take 1 p = ''/'' \<or> wd = [] then resolvedPath
                          else wd @ ''/'' @ resolvedPath);
          resolvedAbsolute = (take 1 resolvedPath = ''/'');
          r = normalizeString resolvedPath (\<not> resolvedAbsolute)
      in if resolvedAbsolute then ''/'' @ r else if r = [] then ''.'' else r)"

definition logger :: "logline \<Rightarrow> world \<Rightarrow> world" where
  "logger l w = w\<lparr>logged := logged w @ [l]\<rparr>"

text \<open>\<open>locateFilePath\<close> as a step of the program on the world: it reads the file system
  and changes nothing.\<close>

definition locate :: "string \<Rightarrow> params option \<Rightarrow> string \<Rightarrow> world \<Rightarrow> (error + string option) \<times> world" where
  "locate path queryParams root' w = (locateFilePath (tree w) path queryParams root', w)"

text \<open>
  The handler returned by \<open>serveLocally(opts)\<close>, for a request with \<open>req.path\<close> and
  \<open>req.query\<close>. \<open>optsRoot\<close> is \<open>opts.root\<close> (\<open>None\<close> when absent; the empty string is falsy
  too, and \<open>rootOf\<close> gives the \<open>root\<close> of the closure), \<open>parseJSON\<close> is \<open>JSON.parse\<close>, \<open>None\<close>
  where it throws. The \<open>try\<close> around \<open>locateFilePath\<close> leaves \<open>filePath\<close> undefined when it
  throws, and \<open>!filePath\<close> also holds for the empty string. The callback of \<open>fs.readFile\<close>
  is run at once.
\<close>

definition rootOf :: "string option \<Rightarrow> string" where
  "rootOf optsRoot = (case optsRoot of None \<Rightarrow> ''.'' | Some r \<Rightarrow> if r = [] then ''.'' else r)"

definition serveLocally ::
  "string option \<Rightarrow> (string \<Rightarrow> 'j option) \<Rightarrow> string \<Rightarrow> params option \<Rightarrow> world \<Rightarrow> 'j outcome \<times> world" where
  "serveLocally optsRoot parseJSON reqPath reqQuery w =
     (let root' = rootOf optsRoot;
          (found, w) = locate reqPath reqQuery root' w;
          filePath = (case found of Inl err \<Rightarrow> None | Inr r \<Rightarrow> r)
      in case filePath of
           None \<Rightarrow> (Next, logger (CouldNotFindMatchFor (path_resolve (cwd w) (path_join root' reqPath))) w)
         | Some p \<Rightarrow>
             if p = [] then
               (Next, logger (CouldNotFindMatchFor (path_resolve (cwd w) (path_join root' reqPath))) w)
             else
               (case contents w p of
                  None \<Rightarrow> (Next, w)
                | Some data \<Rightarrow>
                    (case parseJSON data of
                       None \<Rightarrow> (Next, logger (CouldNotParseJsonFrom p) w)
                     | Some d \<Rightarrow> (Json d, logger (RespondingWithDataFrom p) w))))"

section \<open>Example trees\<close>

text \<open>A tree given by the list of its paths. A path is looked up in normal form and
  without a \<open>/\<close> at its end, so \<open>./test/test_dirs\<close>, \<open>test/test_dirs/\<close> and \<open>test/test_dirs\<close>
  name the same directory; the empty path names nothing.\<close>

definition tree_of :: "(string \<times> fsnode) list \<Rightarrow> filesystem" where
  "tree_of entries =
     (\<lambda>p. if p = [] then None
          else let n = dropWhileEnd (\<lambda>c. c = CHR ''/'') (normalize p)
               in map_of entries (if n = [] then ''/'' else n))"

text \<open>The directories of the repository's test, \<open>path2\<close> listed in alphabetical order.\<close>

definition test_dirs :: filesystem where
  "test_dirs = tree_of
     [(''test/test_dirs'', Directory [''path1'']),
      (''test/test_dirs/path1'', Directory [''path2'']),
      (''test/test_dirs/path1/path2'', Directory [''resource.json'', ''resource?foo=bar.json'']),
      (''test/test_dirs/path1/path2/resource.json'', File),
      (''test/test_dirs/path1/path2/resource?foo=bar.json'', File)]"

text \<open>A file that names the query \<open>a=1&b=2\<close> exactly and one that names a key more; \<open>&\<close>
  comes before \<open>.\<close>, so the longer name is listed first.\<close>

definition tree_overspecific :: filesystem where
  "tree_overspecific = tree_of
     [(''mocks'', Directory [''resource?a=1&b=2&c=3.json'', ''resource?a=1&b=2.json'']),
      (''mocks/resource?a=1&b=2&c=3.json'', File),
      (''mocks/resource?a=1&b=2.json'', File)]"


definition tree_not2 :: filesystem where
  "tree_not2 = tree_of
     [(''mocks'', Directory [''resource?a=1&b=not2.json'']),
      (''mocks/resource?a=1&b=not2.json'', File)]"

definition tree_empty_value :: filesystem where
  "tree_empty_value = tree_of
     [(''mocks'', Directory [''resource?foo=.json'']),
      (''mocks/resource?foo=.json'', File)]"

definition tree_x :: filesystem where
  "tree_x = tree_of
     [(''mocks'', Directory [''resource?x=1.json'']),
      (''mocks/resource?x=1.json'', File)]"

definition tree_zero_key :: filesystem where
  "tree_zero_key = tree_of
     [(''mocks'', Directory [''resource?0=1.json'']),
      (''mocks/resource?0=1.json'', File)]"

text \<open>A hidden file in the root directory and one in a directory below it.\<close>

definition tree_hidden :: filesystem where
  "tree_hidden = tree_of
     [(''.'', Directory [''.secret.json'', ''api'', ''mocks'']),
      (''.secret.json'', File),
      (''api'', Directory [''.secret.json'']),
      (''api/.secret.json'', File),
      (''mocks'', Directory [''.secret.json'']),
      (''mocks/.secret.json'', File)]"

definition test_world :: world where
  "test_world =
     \<lparr>tree = test_dirs,
      contents = map_of
        [(''test/test_dirs/path1/path2/resource.json'', ''{}''),
         (''test/test_dirs/path1/path2/resource?foo=bar.json'', ''{'')],
      cwd = ''/srv'',
      logged = []\<rparr>"

text \<open>A stand-in for \<open>JSON.parse\<close> that accepts the text \<open>{}\<close> only.\<close>

definition parse_braces :: "string \<Rightarrow> string option" where
  "parse_braces s = (if s = ''{}'' then Some s else None)"

section \<open>The sort leaves the candidates in the order of the listing\<close>

lemma comparefn_nonneg: "0 \<le> comparefn a b"
  by (simp add: comparefn_def)

lemma run_length_full:
  assumes "\<And>a b. 0 \<le> cmp a b"
  shows "run_length False cmp p xs = length xs"
  using assms by (induction xs arbitrary: p) (auto simp: Let_def not_less)

lemma array_sort_comparefn: "array_sort comparefn xs = Some xs"
proof (cases xs)
  case Nil
  then show ?thesis by (simp add: array_sort_def)
next
  case (Cons x ys)
  show ?thesis
  proof (cases ys)
    case Nil
    with Cons show ?thesis by (simp add: array_sort_def)
  next
    case (Cons y rest)
    have "\<not> comparefn y x < 0" using comparefn_nonneg [of y x] by simp
    moreover have "run_length False comparefn y rest = length rest"
      by (rule run_length_full) (rule comparefn_nonneg)
    ultimately show ?thesis using \<open>xs = x # ys\<close> Cons by (simp add: array_sort_def)
  qed
qed

lemma bestMatch_first:
  "bestMatch q ms = Inr (case scoredMatches q ms of [] \<Rightarrow> None | m # rest \<Rightarrow> Some (item m))"
  by (simp add: bestMatch_def array_sort_comparefn split: list.splits)

section \<open>The score\<close>

lemma match_loop_mono: "match_loop a m n = Some c \<Longrightarrow> n \<le> c"
proof (induction a arbitrary: n)
  case Nil
  then show ?case by simp
next
  case (Cons kv a)
  obtain k v where kv: "kv = (k, v)" by (cases kv)
  from Cons.prems show ?case
    unfolding kv by (auto simp: Let_def split: if_splits dest: Cons.IH)
qed

lemma match_loop_mismatch:
  assumes "(key, v) \<in> set a" "map_of m key = Some mv" "\<not> falsy (Some mv)" "loosely_differs mv v"
  shows "match_loop a m n = None"
  using assms(1)
proof (induction a arbitrary: n)
  case Nil
  then show ?case by simp
next
  case (Cons kv a)
  obtain k' v' where kv: "kv = (k', v')" by (cases kv)
  show ?case
  proof (cases "kv = (key, v)")
    case True
    then show ?thesis using assms(2-4) by (simp add: Let_def)
  next
    case False
    with Cons.prems have "(key, v) \<in> set a" by simp
    then have "\<And>n. match_loop a m n = None" by (rule Cons.IH)
    then show ?thesis unfolding kv by (simp add: Let_def)
  qed
qed

lemma fuzzyEqual_excluded_iff:
  "fuzzyEqual (Some a) m = - 1 \<longleftrightarrow> match_loop a m 0 = None"
proof (cases "match_loop a m 0")
  case None
  then show ?thesis by (simp add: fuzzyEqual_def)
next
  case (Some c)
  then have "0 \<le> c" by (rule match_loop_mono)
  then have "(of_int c :: rat) \<noteq> - 1"
    by (metis of_int_0_le_iff not_one_le_zero neg_0_le_iff_le)
  moreover have "max (of_int (c - (int (length m) - int (length a)))) (1 / 2 :: rat) \<noteq> - 1"
    by (simp add: max_def)
  ultimately show ?thesis using Some by (simp add: fuzzyEqual_def del: of_int_diff)
qed

text \<open>
  C4. When the loop over the request's keys ends with the count \<open>matchCount\<close>, the count is
  not negative; if it is positive and the candidate's query has more keys than the
  request, the score is the count less the number of keys in excess, but at least one
  half; if the count is zero or the candidate has no key in excess, the score is the count.
\<close>

theorem fuzzyEqual_penalty:
  assumes "match_loop actual matching 0 = Some matchCount"
  shows "0 \<le> matchCount \<and>
    (0 < matchCount \<and> length actual < length matching \<longrightarrow>
       fuzzyEqual (Some actual) matching =
         max (of_int matchCount - (of_nat (length matching) - of_nat (length actual))) (1 / 2)) \<and>
    (matchCount = 0 \<or> length matching \<le> length actual \<longrightarrow>
       fuzzyEqual (Some actual) matching = of_int matchCount)"
  using assms match_loop_mono [OF assms] by (auto simp: fuzzyEqual_def)

theorem fuzzyEqual_penalty_witness:
  "match_loop [(''a'', ''1'')] [(''a'', Str ''1''), (''b'', Str ''x''), (''c'', Str ''y'')] 0 = Some 1 \<and>
   fuzzyEqual (Some [(''a'', ''1'')]) [(''a'', Str ''1''), (''b'', Str ''x''), (''c'', Str ''y'')] = 1 / 2 \<and>
   match_loop [(''a'', ''1''), (''b'', ''2'')] [(''a'', Str ''1''), (''b'', Str ''2'')] 0 = Some 2 \<and>
   fuzzyEqual (Some [(''a'', ''1''), (''b'', ''2'')]) [(''a'', Str ''1''), (''b'', Str ''2'')] = 2"
proof -
  have a: "match_loop [(''a'', ''1'')] [(''a'', Str ''1''), (''b'', Str ''x''), (''c'', Str ''y'')] 0 = Some 1"
    by simp
  have b: "match_loop [(''a'', ''1''), (''b'', ''2'')] [(''a'', Str ''1''), (''b'', Str ''2'')] 0 = Some 2"
    by simp
  show ?thesis
    using fuzzyEqual_penalty [OF a] fuzzyEqual_penalty [OF b] a b by simp
qed

lemma map_of_without:
  "map_of (filter (\<lambda>kv. fst kv \<noteq> key) m) k = (if k = key then None else map_of m k)"
  by (induction m) auto

lemma match_loop_without:
  assumes "map_of matching key = Some (Str [])"
  shows "match_loop actual matching n =
           match_loop actual (filter (\<lambda>kv. fst kv \<noteq> key) matching) n"
proof (induction actual arbitrary: n)
  case Nil
  show ?case by simp
next
  case (Cons kv actual)
  obtain k v where kv: "kv = (k, v)" by (cases kv)
  show ?case
  proof (cases "k = key")
    case True
    then show ?thesis using assms Cons.IH by (simp add: kv map_of_without)
  next
    case False
    then show ?thesis using Cons.IH by (simp add: kv map_of_without Let_def)
  qed
qed

lemma penalty_le:
  fixes c :: int
  assumes "0 \<le> c" and "l' \<le> l"
  shows "(if 0 < c \<and> la < l then max (of_int (c - (int l - int la))) (1 / 2) else of_int c)
       \<le> (if 0 < c \<and> la < l' then max (of_int (c - (int l' - int la))) (1 / 2 :: rat) else of_int c)"
proof (cases "0 < c")
  case False
  then show ?thesis by simp
next
  case True
  then have one: "(1 :: rat) \<le> of_int c"
    by (metis of_int_1 of_int_le_iff int_one_le_iff_zero_less)
  then have half: "(1 / 2 :: rat) \<le> of_int c" by simp
  have d: "(of_int (c - (int l - int la)) :: rat) \<le> of_int (c - (int l' - int la))"
    using assms(2) by simp
  have e: "la < l \<Longrightarrow> (of_int (c - (int l - int la)) :: rat) \<le> of_int c"
    by simp
  show ?thesis
  proof (cases "la < l'")
    case True
    with assms(2) have "la < l" by simp
    then have ll: "la < l" .
    have m: "max (of_int (c - (int l - int la))) (1 / 2 :: rat)
        \<le> max (of_int (c - (int l' - int la))) (1 / 2)"
      using d by (intro max.mono order_refl)
    show ?thesis
      unfolding if_P [OF conjI [OF \<open>0 < c\<close> ll]] if_P [OF conjI [OF \<open>0 < c\<close> True]] by (rule m)
  next
    case False
    show ?thesis
    proof (cases "la < l")
      case True
      then have "max (of_int (c - (int l - int la))) (1 / 2 :: rat) \<le> of_int c"
        using half e by (intro max.boundedI)
      moreover have "\<not> (0 < c \<and> la < l')" using False by simp
      ultimately show ?thesis
        unfolding if_P [OF conjI [OF \<open>0 < c\<close> True]] by (simp only: if_False)
    next
      case False
      with \<open>\<not> la < l'\<close> show ?thesis by simp
    qed
  qed
qed

text \<open>
  C10, as stated, fails for the score: the key with the empty value is still one of the
  candidate's keys when the keys in excess are counted. Against the request \<open>a=1&foo=bar\<close>
  the file \<open>resource?a=1&foo=&z=9.json\<close> scores one half, and would score \<open>1\<close> without the
  key \<open>foo\<close>.
\<close>

theorem empty_value_key_is_counted:
  "map_option query (parseFilename ''mocks/resource?a=1&foo=&z=9.json'') =
     Some [(''a'', Str ''1''), (''foo'', Str []), (''z'', Str ''9'')] \<and>
   fuzzyEqual (Some [(''a'', ''1''), (''foo'', ''bar'')])
     [(''a'', Str ''1''), (''foo'', Str []), (''z'', Str ''9'')] = 1 / 2 \<and>
   fuzzyEqual (Some [(''a'', ''1''), (''foo'', ''bar'')])
     (filter (\<lambda>kv. fst kv \<noteq> ''foo'') [(''a'', Str ''1''), (''foo'', Str []), (''z'', Str ''9'')]) = 1"
  by code_simp

text \<open>
  C10, amended. A candidate whose parsed query gives the empty string for a key is
  treated by the loop of \<open>fuzzyEqual\<close> as the same candidate without that key: the key is
  skipped, it adds nothing to the count and does not exclude the candidate. So the
  candidate is excluded (score \<open>-1\<close>) exactly when it would be without the key, and
  \<open>resource?foo=.json\<close> is not excluded by a request with \<open>foo=bar\<close>. The key still counts
  among the candidate's keys, so the score is at most the score without the key, and can
  be less.
\<close>

theorem empty_value_is_skipped:
  assumes "map_of matching key = Some (Str [])"
  shows "match_loop actual matching n =
           match_loop actual (filter (\<lambda>kv. fst kv \<noteq> key) matching) n \<and>
         (fuzzyEqual (Some actual) matching = - 1 \<longleftrightarrow>
          fuzzyEqual (Some actual) (filter (\<lambda>kv. fst kv \<noteq> key) matching) = - 1) \<and>
         fuzzyEqual (Some actual) matching \<le>
           fuzzyEqual (Some actual) (filter (\<lambda>kv. fst kv \<noteq> key) matching)"
proof -
  let ?m = "filter (\<lambda>kv. fst kv \<noteq> key) matching"
  note loop = match_loop_without [OF assms]
  have le: "fuzzyEqual (Some actual) matching \<le> fuzzyEqual (Some actual) ?m"
  proof (cases "match_loop actual matching 0")
    case None
    then show ?thesis using loop [of actual 0] by (simp add: fuzzyEqual_def)
  next
    case (Some c)
    then have "0 \<le> c" by (rule match_loop_mono)
    have "length ?m \<le> length matching" by (rule length_filter_le)
    from penalty_le [OF \<open>0 \<le> c\<close> this, where la = "length actual"] Some loop [of actual 0]
    show ?thesis by (simp add: fuzzyEqual_def del: of_int_diff)
  qed
  show ?thesis using loop [of actual n] loop [of actual 0] le
    by (simp add: fuzzyEqual_excluded_iff)
qed

theorem empty_value_is_skipped_witness:
  "map_option query (parseFilename ''mocks/resource?foo=.json'') = Some [(''foo'', Str [])] \<and>
   match_loop [(''foo'', ''bar'')] [(''foo'', Str [])] 0 = match_loop [(''foo'', ''bar'')] [] 0 \<and>
   fuzzyEqual (Some [(''foo'', ''bar'')]) [(''foo'', Str [])] = 0 \<and>
   fuzzyEqual (Some [(''foo'', ''bar'')]) [(''foo'', Str [])] \<noteq> - 1 \<and>
   fuzzyEqual (Some [(''a'', ''1''), (''foo'', ''bar'')])
       [(''a'', Str ''1''), (''foo'', Str []), (''z'', Str ''9'')]
     \<le> fuzzyEqual (Some [(''a'', ''1''), (''foo'', ''bar'')]) [(''a'', Str ''1''), (''z'', Str ''9'')]"
proof -
  have p: "map_option query (parseFilename ''mocks/resource?foo=.json'') = Some [(''foo'', Str [])]"
    by code_simp
  have h: "map_of [(''foo'', Str [])] ''foo'' = Some (Str [])" by simp
  have h': "map_of [(''a'', Str ''1''), (''foo'', Str []), (''z'', Str ''9'')] ''foo'' = Some (Str [])"
    by simp
  have z: "fuzzyEqual (Some [(''foo'', ''bar'')]) [] = 0" by (simp add: fuzzyEqual_def)
  from empty_value_is_skipped [OF h, of "[(''foo'', ''bar'')]" 0]
    empty_value_is_skipped [OF h', of "[(''a'', ''1''), (''foo'', ''bar'')]" 0] z p
  show ?thesis by (simp add: fuzzyEqual_def)
qed

lemma scoredMatches_count:
  "s \<in> set (scoredMatches q ms) \<Longrightarrow>
     count s = fuzzyEqual q (query (item s)) \<and> count s \<noteq> - 1 \<and> item s \<in> set ms"
  by (auto simp: scoredMatches_def)

lemma bestMatch_Some:
  assumes "bestMatch q ms = Inr (Some c)"
  shows "c \<in> set ms \<and> fuzzyEqual q (query c) \<noteq> - 1"
proof -
  from assms obtain s rest where s: "scoredMatches q ms = s # rest" "item s = c"
    by (auto simp: bestMatch_first split: list.splits)
  then have "s \<in> set (scoredMatches q ms)" by simp
  from scoredMatches_count [OF this] s(2) show ?thesis by auto
qed

text \<open>
  C2, the code on a candidate whose value for the request's key is empty. The test
  \<open>!matchingValue\<close>, meant to ask whether the key exists, also holds for the empty string:
  \<open>resource?foo=.json\<close> has \<open>foo\<close> with a value other than the request's \<open>bar\<close>, yet scores \<open>0\<close>
  and is the file returned. The other way round the values are compared: a request with
  \<open>foo\<close> empty excludes \<open>resource?foo=bar.json\<close>; and two empty values do not count as a
  match.
\<close>

theorem empty_value_is_not_excluded:
  "map_option query (parseFilename ''mocks/resource?foo=.json'') = Some [(''foo'', Str [])] \<and>
   loosely_differs (Str []) ''bar'' \<and>
   fuzzyEqual (Some [(''foo'', ''bar'')]) [(''foo'', Str [])] = 0 \<and>
   locateFilePath tree_empty_value ''/resource'' (Some [(''foo'', ''bar'')]) ''mocks'' =
     Inr (Some ''mocks/resource?foo=.json'') \<and>
   fuzzyEqual (Some [(''foo'', [])]) [(''foo'', Str ''bar'')] = - 1 \<and>
   fuzzyEqual (Some [(''foo'', [])]) [(''foo'', Str [])] = 0"
  by code_simp

text \<open>
  A value that is not empty does exclude. For a request that has query parameters and a
  candidate \<open>c\<close> whose parsed query gives some key of the request a value that is not empty
  and differs from the request's value (an array by its elements joined with commas),
  \<open>fuzzyEqual\<close> is \<open>-1\<close>; \<open>c\<close> is never the candidate chosen, whatever the other candidates
  are; and when \<open>c\<close> is the only candidate whose stripped name is the last segment,
  \<open>locateFilePath\<close> returns \<open>undefined\<close>.
\<close>

theorem mismatch_is_excluded:
  assumes "(key, v) \<in> set actual"
    and "map_of (query c) key = Some mv"
    and "\<not> falsy (Some mv)"
    and "loosely_differs mv v"
  shows "fuzzyEqual (Some actual) (query c) = - 1 \<and>
         bestMatch (Some actual) ms \<noteq> Inr (Some c) \<and>
         (candidates fs path root' = Inr [c] \<longrightarrow>
            locateFilePath fs path (Some actual) root' = Inr None)"
proof -
  have ex: "fuzzyEqual (Some actual) (query c) = - 1"
    using match_loop_mismatch [OF assms] by (simp add: fuzzyEqual_excluded_iff)
  have sel: "bestMatch (Some actual) ms \<noteq> Inr (Some c)" for ms
    using bestMatch_Some [of "Some actual" ms c] ex by auto
  have "scoredMatches (Some actual) [c] = []"
    using ex by (simp add: scoredMatches_def)
  then have "bestMatch (Some actual) [c] = Inr None"
    by (simp add: bestMatch_first)
  then show ?thesis using ex sel by (simp add: locateFilePath_def)
qed

theorem mismatch_is_excluded_witness:
  "fuzzyEqual (Some [(''a'', ''1''), (''b'', ''2''), (''clientId'', ''a1b2c34d'')])
     [(''a'', Str ''1''), (''b'', Str ''not2'')] = - 1 \<and>
   candidates tree_not2 ''/resource'' ''mocks'' =
     Inr [the (parseFilename ''mocks/resource?a=1&b=not2.json'')] \<and>
   locateFilePath tree_not2 ''/resource''
     (Some [(''a'', ''1''), (''b'', ''2''), (''clientId'', ''a1b2c34d'')]) ''mocks'' = Inr None"
proof -
  let ?c = "the (parseFilename ''mocks/resource?a=1&b=not2.json'')"
  let ?actual = "[(''a'', ''1''), (''b'', ''2''), (''clientId'', ''a1b2c34d'')]"
  have q: "query ?c = [(''a'', Str ''1''), (''b'', Str ''not2'')]"
    by code_simp
  have k: "(''b'', ''2'') \<in> set ?actual" by simp
  have m: "map_of (query ?c) ''b'' = Some (Str ''not2'')" by (simp add: q)
  have f: "\<not> falsy (Some (Str ''not2''))" by simp
  have d: "loosely_differs (Str ''not2'') ''2''" by simp
  have cs: "candidates tree_not2 ''/resource'' ''mocks'' = Inr [?c]"
    by code_simp
  from mismatch_is_excluded [OF k m f d, of "[]" tree_not2 "''/resource''" "''mocks''"] cs q
  show ?thesis by simp
qed

section \<open>The walk\<close>

lemma find_name: "find (\<lambda>file. file = x) names = (if x \<in> set names then Some x else None)"
  by (induction names) auto

lemma match_eq:
  assumes "readdirSync fs position = Inr names"
  shows "match fs fragment position =
           (if fragment \<in> set names \<and> fragment \<noteq> [] then Inr fragment
            else Inl (CouldNotFindMatch fragment position))"
  using assms by (simp add: match_def find_name)

lemma walk_step:
  "walk fs (fragment # next # rest) position =
     (case match fs fragment position of
        Inl e \<Rightarrow> Inl e
      | Inr directory \<Rightarrow>
          (case statSync fs (path_join position directory) of
             Inl e \<Rightarrow> Inl e
           | Inr stats \<Rightarrow>
               if \<not> isDirectory stats then Inl (NotADirectory (path_join position directory))
               else walk fs (next # rest) (path_join position directory)))"
  by (auto simp: Let_def split: sum.splits)

declare walk.simps(1) [simp del]

lemma walk_prefix:
  assumes "walk fs (pre @ [x]) start = Inr (position, r)"
  shows "walk fs (pre @ fragment # rest) start = walk fs (fragment # rest) position"
  using assms
proof (induction pre arbitrary: start)
  case Nil
  then show ?case by simp
next
  case (Cons p ps)
  obtain n1 r1 where l1: "ps @ [x] = n1 # r1" by (cases ps) auto
  obtain n2 r2 where l2: "ps @ fragment # rest = n2 # r2" by (cases ps) auto
  from Cons.prems have w: "walk fs (p # n1 # r1) start = Inr (position, r)"
    by (simp add: l1)
  show ?case
  proof (cases "match fs p start")
    case (Inl e)
    with w show ?thesis by (simp add: walk_step)
  next
    case (Inr directory)
    note m = this
    show ?thesis
    proof (cases "statSync fs (path_join start directory)")
      case (Inl e)
      with w m show ?thesis by (simp add: walk_step)
    next
      case (Inr stats)
      with w m have d: "isDirectory stats"
        and w': "walk fs (ps @ [x]) (path_join start directory) = Inr (position, r)"
        by (auto simp: walk_step l1 split: if_splits)
      from Cons.IH [OF w'] have
        "walk fs (ps @ fragment # rest) (path_join start directory) = walk fs (fragment # rest) position" .
      then show ?thesis using m Inr d
        by (simp add: l2 walk_step)
    qed
  qed
qed

text \<open>
  C5. Let the request path have the segment \<open>fragment\<close> before its last one, and let the
  walk over the segments before \<open>fragment\<close> succeed and arrive at \<open>position\<close>, a directory
  with the entries \<open>names\<close>. If \<open>fragment\<close> is not among \<open>names\<close>, or what it names there is
  not a directory, then \<open>locateFilePath\<close> throws: the error of \<open>match\<close> when there is no
  entry of that name, the error "is not a directory" otherwise. A thrown error is not the
  result \<open>undefined\<close> of a path that leads to a directory without a matching file.
\<close>

theorem intermediate_segment_failure:
  assumes "segments path = pre @ fragment # next # rest"
    and "walk fs (pre @ [fragment]) root' = Inr (position, [fragment])"
    and "readdirSync fs position = Inr names"
    and "fragment \<notin> set names \<or>
         (\<exists>n. fs (path_join position fragment) = Some n \<and> \<not> isDirectory n)"
  shows "locateFilePath fs path queryParams root' =
           Inl (if fragment \<in> set names \<and> fragment \<noteq> []
                then NotADirectory (path_join position fragment)
                else CouldNotFindMatch fragment position) \<and>
         locateFilePath fs path queryParams root' \<noteq> Inr None"
proof -
  have "walk fs (segments path) root' = walk fs (fragment # next # rest) position"
    using walk_prefix [OF assms(2)] assms(1) by simp
  also have "\<dots> = Inl (if fragment \<in> set names \<and> fragment \<noteq> []
                then NotADirectory (path_join position fragment)
                else CouldNotFindMatch fragment position)"
    using assms(4) by (auto simp: walk_step match_eq [OF assms(3)] statSync_def)
  finally show ?thesis by (simp add: locateFilePath_def candidates_def)
qed

theorem intermediate_segment_failure_witness:
  "locateFilePath test_dirs ''/path1/nosuch/resource'' None ''./test/test_dirs'' =
     Inl (CouldNotFindMatch ''nosuch'' ''test/test_dirs/path1'') \<and>
   locateFilePath test_dirs ''/path1/path2/resource.json/x'' None ''./test/test_dirs'' =
     Inl (NotADirectory ''test/test_dirs/path1/path2/resource.json'')"
proof -
  have s1: "segments ''/path1/nosuch/resource'' = [''path1''] @ ''nosuch'' # ''resource'' # []"
    by code_simp
  have w1: "walk test_dirs ([''path1''] @ [''nosuch'']) ''./test/test_dirs'' =
      Inr (''test/test_dirs/path1'', [''nosuch''])"
    by code_simp
  have r1: "readdirSync test_dirs ''test/test_dirs/path1'' = Inr [''path2'']"
    by code_simp
  have b1: "''nosuch'' \<notin> set [''path2''] \<or>
      (\<exists>n. test_dirs (path_join ''test/test_dirs/path1'' ''nosuch'') = Some n \<and> \<not> isDirectory n)"
    by simp
  have s2: "segments ''/path1/path2/resource.json/x'' =
      [''path1'', ''path2''] @ ''resource.json'' # ''x'' # []"
    by code_simp
  have w2: "walk test_dirs ([''path1'', ''path2''] @ [''resource.json'']) ''./test/test_dirs'' =
      Inr (''test/test_dirs/path1/path2'', [''resource.json''])"
    by code_simp
  have r2: "readdirSync test_dirs ''test/test_dirs/path1/path2'' =
      Inr [''resource.json'', ''resource?foo=bar.json'']"
    by code_simp
  have f2: "test_dirs (path_join ''test/test_dirs/path1/path2'' ''resource.json'') = Some File"
    by code_simp
  have b2: "''resource.json'' \<notin> set [''resource.json'', ''resource?foo=bar.json''] \<or>
      (\<exists>n. test_dirs (path_join ''test/test_dirs/path1/path2'' ''resource.json'') = Some n \<and>
           \<not> isDirectory n)"
    using f2 by simp
  have j2: "path_join ''test/test_dirs/path1/path2'' ''resource.json'' =
      ''test/test_dirs/path1/path2/resource.json''"
    by code_simp
  from intermediate_segment_failure [OF s1 w1 r1 b1, of None]
    intermediate_segment_failure [OF s2 w2 r2 b2, of None] j2
  show ?thesis by simp
qed








section \<open>The choice among the candidates\<close>

lemma match_no_sort_error: "match fs fragment position = Inl e \<Longrightarrow> e \<noteq> SortBeyondModel"
  by (auto simp: match_def readdirSync_def
      split: sum.splits option.splits fsnode.splits if_splits)

lemma walk_no_sort_error: "walk fs path position = Inl e \<Longrightarrow> e \<noteq> SortBeyondModel"
proof (induction fs path position rule: walk.induct)
  case (1 fs fragment "next" rest position)
  from "1.prems" show ?case
    by (auto simp: walk_step statSync_def
        split: sum.splits option.splits if_splits
        dest: match_no_sort_error "1.IH")
qed simp_all

lemma onlyFiles_no_sort_error: "onlyFiles fs fl = Inl e \<Longrightarrow> e \<noteq> SortBeyondModel"
  by (induction fl arbitrary: e)
    (auto simp: statSync_def split: sum.splits option.splits)

lemma locateFilePath_sort_in_model:
  "locateFilePath fs path queryParams root' \<noteq> Inl SortBeyondModel"
proof (cases "candidates fs path root'")
  case (Inl e)
  then have "e \<noteq> SortBeyondModel"
    by (auto simp: candidates_def readdirSync_def split: sum.splits prod.splits option.splits fsnode.splits
        dest: walk_no_sort_error onlyFiles_no_sort_error)
  with Inl show ?thesis by (simp add: locateFilePath_def)
next
  case (Inr ms)
  then show ?thesis by (simp add: locateFilePath_def bestMatch_first split: list.splits)
qed

text \<open>What the code does choose: the first candidate, in the order of the listing, whose
  score is not \<open>-1\<close>.\<close>

theorem first_admissible_candidate_is_chosen:
  "bestMatch queryParams ms =
     Inr (case filter (\<lambda>m. fuzzyEqual queryParams (query m) \<noteq> - 1) ms of
            [] \<Rightarrow> None
          | m # rest \<Rightarrow> Some m)"
proof -
  have "map item (scoredMatches queryParams ms) =
      filter (\<lambda>m. fuzzyEqual queryParams (query m) \<noteq> - 1) ms"
    by (induction ms) (simp_all add: scoredMatches_def)
  then show ?thesis
    by (simp add: bestMatch_first split: list.splits) (metis list.simps(9) list.inject list.distinct(1) list.map_disc_iff)
qed

text \<open>
  C1, the code on the directories of the repository's own test and on a directory with
  an exact and a more specific file. The comparison function never returns a negative
  number, so the sort moves nothing and the first candidate of the listing that is not
  excluded is returned: \<open>resource.json\<close> (score \<open>0\<close>) before \<open>resource?foo=bar.json\<close>
  (score \<open>1\<close>), and \<open>resource?a=1&b=2&c=3.json\<close> (score \<open>1\<close>) before \<open>resource?a=1&b=2.json\<close>
  (score \<open>2\<close>).
\<close>

theorem boolean_comparefn_keeps_listing_order:
  "locateFilePath test_dirs ''/path1/path2/resource'' (Some [(''foo'', ''bar'')]) ''./test/test_dirs'' =
     Inr (Some ''test/test_dirs/path1/path2/resource.json'') \<and>
   locateFilePath tree_overspecific ''/resource'' (Some [(''a'', ''1''), (''b'', ''2'')]) ''mocks'' =
     Inr (Some ''mocks/resource?a=1&b=2&c=3.json'')"
  by code_simp

text \<open>
  C3, the code on a request without query parameters. With \<open>queryParams\<close> absent the keys
  of the candidate are compared with \<open>0\<close>, and the one key \<open>0\<close> is loosely equal to it: the
  candidate \<open>resource?0=1.json\<close> scores \<open>0\<close> and is returned. With the empty object for
  \<open>queryParams\<close> the loop finds nothing to compare, and \<open>resource?x=1.json\<close> scores \<open>0\<close> and is
  returned; only with \<open>queryParams\<close> absent is it excluded.
\<close>

theorem keys_compared_with_zero:
  "fuzzyEqual None [(''0'', Str ''1'')] = 0 \<and>
   locateFilePath tree_zero_key ''/resource'' None ''mocks'' = Inr (Some ''mocks/resource?0=1.json'') \<and>
   fuzzyEqual (Some []) [(''x'', Str ''1'')] = 0 \<and>
   locateFilePath tree_x ''/resource'' (Some []) ''mocks'' = Inr (Some ''mocks/resource?x=1.json'') \<and>
   locateFilePath tree_x ''/resource'' None ''mocks'' = Inr None"
  by code_simp

text \<open>
  C7, the code on a hidden file. \<open>parseFilename\<close> looks at the first character of the path
  joined from the directory and the name, so \<open>.secret.json\<close> is left out only in the
  directory \<open>.\<close> itself; below another root, or one directory down, it is a candidate and
  is returned.
\<close>

theorem hidden_file_below_root_is_served:
  "locateFilePath tree_hidden ''/.secret'' None ''mocks'' = Inr (Some ''mocks/.secret.json'') \<and>
   locateFilePath tree_hidden ''/api/.secret'' None ''.'' = Inr (Some ''api/.secret.json'') \<and>
   locateFilePath tree_hidden ''/.secret'' None ''.'' = Inr None"
  by code_simp

section \<open>What the middleware does with a request\<close>

text \<open>
  C9. Whatever the request, the handler ends with \<open>next()\<close> or with \<open>res.json(data)\<close> and
  throws nothing: an error thrown by \<open>locateFilePath\<close>, the result \<open>undefined\<close>, a read
  error and a text that \<open>JSON.parse\<close> rejects all end with \<open>next()\<close>, and \<open>res.json(d)\<close> is
  called exactly when a file was found, read and parsed to \<open>d\<close>. The file system is left as
  it was.
\<close>

theorem serveLocally_falls_through:
  fixes parseJSON :: "string \<Rightarrow> 'j option"
  assumes "serveLocally optsRoot parseJSON reqPath reqQuery w = (out, w')"
    and "found = locateFilePath (tree w) reqPath reqQuery (rootOf optsRoot)"
  shows "(\<forall>e. found = Inl e \<longrightarrow> out = Next) \<and>
         (found = Inr None \<longrightarrow> out = Next) \<and>
         (\<forall>p. found = Inr (Some p) \<and> contents w p = None \<longrightarrow> out = Next) \<and>
         (\<forall>p data. found = Inr (Some p) \<and> contents w p = Some data \<and> parseJSON data = None \<longrightarrow>
            out = Next) \<and>
         (\<forall>d. out = Json d \<longleftrightarrow>
            (\<exists>p data. found = Inr (Some p) \<and> p \<noteq> [] \<and> contents w p = Some data \<and>
               parseJSON data = Some d)) \<and>
         tree w' = tree w \<and> contents w' = contents w"
  using assms
  by (auto simp: serveLocally_def locate_def logger_def Let_def split: sum.splits option.splits if_splits)

theorem serveLocally_falls_through_witness:
  "fst (serveLocally (Some ''./test/test_dirs'') parse_braces ''/path1/nosuch/resource'' None test_world) = Next \<and>
   fst (serveLocally (Some ''./test/test_dirs'') parse_braces ''/path1/path2/nothing'' None test_world) = Next \<and>
   fst (serveLocally (Some ''./test/test_dirs'') parse_braces ''/path1/path2/resource'' None test_world) = Json ''{}''"
proof -
  have f1: "locateFilePath (tree test_world) ''/path1/nosuch/resource'' None (rootOf (Some ''./test/test_dirs'')) =
      Inl (CouldNotFindMatch ''nosuch'' ''test/test_dirs/path1'')"
    by code_simp
  have f2: "locateFilePath (tree test_world) ''/path1/path2/nothing'' None (rootOf (Some ''./test/test_dirs'')) =
      Inr None"
    by code_simp
  have f3: "locateFilePath (tree test_world) ''/path1/path2/resource'' None (rootOf (Some ''./test/test_dirs'')) =
      Inr (Some ''test/test_dirs/path1/path2/resource.json'')"
    by code_simp
  have c3: "contents test_world ''test/test_dirs/path1/path2/resource.json'' = Some ''{}''"
    by code_simp
  have p3: "parse_braces ''{}'' = Some ''{}''"
    by code_simp
  from serveLocally_falls_through [where parseJSON = parse_braces, OF surjective_pairing f1 [symmetric]]
    serveLocally_falls_through [where parseJSON = parse_braces, OF surjective_pairing f2 [symmetric]]
    serveLocally_falls_through [where parseJSON = parse_braces, OF surjective_pairing f3 [symmetric]] c3 p3
  show ?thesis by auto
qed

end
